theory Spec2Isabelle
  imports Complex_Main
begin

section \<open>The cell component of the chessboard (Square.tsx)\<close>

text \<open>
  A shallow embedding of \<^verbatim>\<open>src/chessboard/components/Square.tsx\<close>.
  The component reads its configuration from the shared chessboard context, renders one
  cell of the board and forwards pointer, touch and drop events to the context's mutators.
  The embedding keeps the pure parts (style composition, corner rounding) as functions on
  style objects, and turns every call of a context mutator into an entry of a trace, in
  the order of the calls.
\<close>

subsection \<open>Data\<close>

text \<open>
  \<^verbatim>\<open>Sq\<close> and \<^verbatim>\<open>Piece\<close> are unions of string literals
  (\<^verbatim>\<open>"a1"\<close>, ..., \<^verbatim>\<open>"wP"\<close>, ...). At run time they are strings,
  and the code tests them as strings (\<^verbatim>\<open>square === "a1"\<close>,
  \<^verbatim>\<open>item.piece[0] === "w"\<close>, \<^verbatim>\<open>if (square && ...)\<close>), so they are strings
  here. The empty string is the only falsy string.
\<close>

type_synonym Sq = string
type_synonym Piece = string

text \<open>
  \<^verbatim>\<open>BoardOrientation\<close> and the \<^verbatim>\<open>squareColor\<close> prop are both the union
  \<^verbatim>\<open>"white" | "black"\<close>.
\<close>

datatype white_or_black = White | Black

type_synonym BoardOrientation = white_or_black

text \<open>
  A style object is a \<^verbatim>\<open>Record<string, string | number>\<close>: a finite map from
  property names to strings or numbers. Numbers are reals here; \<^verbatim>\<open>NaN\<close> has no
  counterpart.
\<close>

datatype style_value = Str string | Num real

type_synonym style = "string \<rightharpoonup> style_value"

text \<open>JavaScript truthiness of a style value: \<^verbatim>\<open>""\<close> and \<^verbatim>\<open>0\<close> are falsy.\<close>

fun truthy :: "style_value \<Rightarrow> bool" where
  "truthy (Str s) = (s \<noteq> [])"
| "truthy (Num n) = (n \<noteq> 0)"

subsection \<open>Corner rounding\<close>

text \<open>
  \<^verbatim>\<open>customBoardStyle?.borderRadius\<close>: \<^verbatim>\<open>undefined\<close> when the board style or the
  property is absent.
\<close>

definition boardBorderRadius :: "style option \<Rightarrow> style_value option" where
  "boardBorderRadius customBoardStyle =
     (case customBoardStyle of None \<Rightarrow> None | Some s \<Rightarrow> s ''borderRadius'')"

text \<open>
  \<^verbatim>\<open>borderRadius(square, boardOrientation, customBoardStyle)\<close>, lines 218 to 247.
  The first line returns the empty object unless a truthy \<^verbatim>\<open>borderRadius\<close> is
  configured; the four corner cells follow in the order of the source.
\<close>

definition borderRadius :: "Sq \<Rightarrow> BoardOrientation \<Rightarrow> style option \<Rightarrow> style" where
  "borderRadius square orientation customBoardStyle =
     (case boardBorderRadius customBoardStyle of
        None \<Rightarrow> Map.empty
      | Some r \<Rightarrow>
          if \<not> truthy r then Map.empty
          else if square = ''a1'' then
            (if orientation = White then [''borderBottomLeftRadius'' \<mapsto> r]
             else [''borderTopRightRadius'' \<mapsto> r])
          else if square = ''a8'' then
            (if orientation = White then [''borderTopLeftRadius'' \<mapsto> r]
             else [''borderBottomRightRadius'' \<mapsto> r])
          else if square = ''h1'' then
            (if orientation = White then [''borderBottomRightRadius'' \<mapsto> r]
             else [''borderTopLeftRadius'' \<mapsto> r])
          else if square = ''h8'' then
            (if orientation = White then [''borderTopRightRadius'' \<mapsto> r]
             else [''borderBottomLeftRadius'' \<mapsto> r])
          else Map.empty)"

text \<open>The board style supplies a truthy \<^verbatim>\<open>borderRadius\<close>.\<close>

definition hasBorderRadius :: "style option \<Rightarrow> bool" where
  "hasBorderRadius customBoardStyle =
     (case boardBorderRadius customBoardStyle of None \<Rightarrow> False | Some r \<Rightarrow> truthy r)"

text \<open>A board style as the library's documentation configures it.\<close>

definition roundedBoard :: "style option" where
  "roundedBoard = Some [''borderRadius'' \<mapsto> Str ''4px'']"

subsection \<open>The shared context\<close>

text \<open>
  \<^verbatim>\<open>customSquare\<close> is either a tag name or a component
  (\<^verbatim>\<open>typeof CustomSquare === "string"\<close>).
\<close>

datatype CustomSquare = TagName string | Component

text \<open>
  The fields of \<^verbatim>\<open>useChessboard()\<close> that the component reads as data (lines 23 to 54).
  The mutators of the context are the constructors of \<open>signal\<close> below.
  \<^verbatim>\<open>currentPosition\<close>, \<^verbatim>\<open>isWaitingForAnimation\<close>, \<^verbatim>\<open>lastPieceColour\<close> and
  \<^verbatim>\<open>onPieceDrop\<close> occur only in the dependency array of \<^verbatim>\<open>useDrop\<close> (lines 64
  to 70), where React compares them with \<^verbatim>\<open>Object.is\<close>. The position object and the
  callback are compared by reference and never read, so the model keeps their references.
\<close>

type_synonym reference = nat

record chessboard =
  autoPromoteToQueen :: bool
  boardWidth :: real
  boardOrientation :: BoardOrientation
  currentPosition :: reference
  currentRightClickDown :: "Sq option"
  customBoardStyle :: "style option"
  customDarkSquareStyle :: style
  customDropSquareStyle :: style
  customLightSquareStyle :: style
  customPremoveDarkSquareStyle :: style
  customPremoveLightSquareStyle :: style
  customSquare :: CustomSquare
  customSquareStyles :: "(Sq \<rightharpoonup> style) option"
  isWaitingForAnimation :: bool
  lastPieceColour :: "string option"
  onPieceDrop :: reference
  onPromotionCheck :: "Sq \<Rightarrow> Sq \<Rightarrow> Piece \<Rightarrow> bool"

text \<open>
  One call of a mutator of the context, with its arguments. The last argument of
  \<^verbatim>\<open>handleSetPosition\<close> is optional: \<open>None\<close> is a call with three arguments.
\<close>

datatype signal =
    HandleSetPosition Sq Sq Piece "bool option"
  | SetPromoteFromSquare Sq
  | SetPromoteToSquare Sq
  | SetShowPromoteDialog bool
  | OnDragOverSquare Sq
  | DrawNewArrow Sq Sq
  | OnMouseOverSquare Sq
  | OnMouseOutSquare Sq
  | OnRightClickDown Sq
  | OnArrowDrawEnd Sq Sq
  | OnRightClickUp Sq
  | OnSquareClick Sq
  | ClearArrows
  | PreventDefault

subsection \<open>Style composition\<close>

text \<open>
  \<^verbatim>\<open>{...a, ...b}\<close> is \<open>a ++ b\<close>: the entries of \<open>b\<close> win.
  \<^verbatim>\<open>...(cond && obj)\<close> spreads \<^verbatim>\<open>false\<close>, that is nothing, when the condition
  is false.
\<close>

definition spreadIf :: "bool \<Rightarrow> style \<Rightarrow> style" where
  "spreadIf cond obj = (if cond then obj else Map.empty)"

text \<open>\<^verbatim>\<open>defaultSquareStyle\<close>, lines 100 to 110: the style of the outer element.\<close>

definition defaultSquareStyle ::
  "chessboard \<Rightarrow> Sq \<Rightarrow> white_or_black \<Rightarrow> bool \<Rightarrow> bool \<Rightarrow> style" where
  "defaultSquareStyle ctx square squareColor squareHasPremove isOver =
     borderRadius square (boardOrientation ctx) (customBoardStyle ctx)
     ++ (if squareColor = Black then customDarkSquareStyle ctx
         else customLightSquareStyle ctx)
     ++ spreadIf squareHasPremove
          (if squareColor = Black then customPremoveDarkSquareStyle ctx
           else customPremoveLightSquareStyle ctx)
     ++ spreadIf isOver (customDropSquareStyle ctx)"

text \<open>\<^verbatim>\<open>center\<close> and \<^verbatim>\<open>size\<close>, lines 208 to 216.\<close>

definition center :: style where
  "center = [''display'' \<mapsto> Str ''flex'', ''justifyContent'' \<mapsto> Str ''center'']"

definition size_style :: "real \<Rightarrow> style" where
  "size_style width = [''width'' \<mapsto> Num (width / 8), ''height'' \<mapsto> Num (width / 8)]"

text \<open>
  \<^verbatim>\<open>customSquareStyles?.[square]\<close>, spread: an absent table or an absent entry
  spreads nothing.
\<close>

definition customSquareStyleAt :: "chessboard \<Rightarrow> Sq \<Rightarrow> style" where
  "customSquareStyleAt ctx square =
     (case customSquareStyles ctx of
        None \<Rightarrow> Map.empty
      | Some styles \<Rightarrow> (case styles square of None \<Rightarrow> Map.empty | Some s \<Rightarrow> s))"

text \<open>
  The style of the inner element, lines 182 to 186 and, with the same text, 195 to 199.
\<close>

definition innerStyle :: "chessboard \<Rightarrow> Sq \<Rightarrow> bool \<Rightarrow> style" where
  "innerStyle ctx square squareHasPremove =
     size_style (boardWidth ctx) ++ center
     ++ spreadIf (\<not> squareHasPremove) (customSquareStyleAt ctx square)"

text \<open>
  What the component returns, lines 112 to 205: the outer element with its style and
  data attributes, and the inner element, which receives \<^verbatim>\<open>square\<close> and
  \<^verbatim>\<open>squareColor\<close> as props only when \<^verbatim>\<open>customSquare\<close> is a component.
\<close>

record rendered =
  style_outer :: style
  data_square_color :: white_or_black
  data_square :: Sq
  inner_props :: "(Sq \<times> white_or_black) option"
  style_inner :: style

definition Square :: "chessboard \<Rightarrow> Sq \<Rightarrow> white_or_black \<Rightarrow> bool \<Rightarrow> bool \<Rightarrow> rendered" where
  "Square ctx square squareColor squareHasPremove isOver =
     \<lparr> style_outer = defaultSquareStyle ctx square squareColor squareHasPremove isOver,
       data_square_color = squareColor,
       data_square = square,
       inner_props = (case customSquare ctx of
                        TagName t \<Rightarrow> None
                      | Component \<Rightarrow> Some (square, squareColor)),
       style_inner = (case customSquare ctx of
                        TagName t \<Rightarrow> innerStyle ctx square squareHasPremove
                      | Component \<Rightarrow> innerStyle ctx square squareHasPremove) \<rparr>"

text \<open>
  Two contexts for concrete evaluation: the library's default colours with a rounded
  board and a promotion check that holds for a pawn dropped on its last rank, and one whose
  dark cells carry a border besides their colour.
\<close>

definition defaultCtx :: chessboard where
  "defaultCtx =
     \<lparr> autoPromoteToQueen = False,
       boardWidth = 560,
       boardOrientation = White,
       currentPosition = 1,
       currentRightClickDown = None,
       customBoardStyle = roundedBoard,
       customDarkSquareStyle = [''backgroundColor'' \<mapsto> Str ''#B58863''],
       customDropSquareStyle = [''boxShadow'' \<mapsto> Str ''inset 0 0 1px 6px rgba(255,255,255,0.75)''],
       customLightSquareStyle = [''backgroundColor'' \<mapsto> Str ''#F0D9B5''],
       customPremoveDarkSquareStyle = [''backgroundColor'' \<mapsto> Str ''#A42323''],
       customPremoveLightSquareStyle = [''backgroundColor'' \<mapsto> Str ''#BD2828''],
       customSquare = TagName ''div'',
       customSquareStyles = Some [''e5'' \<mapsto> [''backgroundColor'' \<mapsto> Str ''yellow'']],
       isWaitingForAnimation = False,
       lastPieceColour = None,
       onPieceDrop = 2,
       onPromotionCheck = (\<lambda>sourceSquare targetSquare piece.
          (piece = ''wP'' \<and> take 1 (drop 1 targetSquare) = ''8'') \<or>
          (piece = ''bP'' \<and> take 1 (drop 1 targetSquare) = ''1'')) \<rparr>"

definition borderedCtx :: chessboard where
  "borderedCtx = defaultCtx
     \<lparr> customDarkSquareStyle :=
         [''backgroundColor'' \<mapsto> Str ''#B58863'', ''border'' \<mapsto> Str ''1px solid black''] \<rparr>"

text \<open>
  Names for the two colour-dependent layers of \<open>defaultSquareStyle\<close>: the base colour
  style (lines 102 to 104) and the premove style (lines 106 to 108).
\<close>

definition baseStyle :: "chessboard \<Rightarrow> white_or_black \<Rightarrow> style" where
  "baseStyle ctx squareColor =
     (if squareColor = Black then customDarkSquareStyle ctx else customLightSquareStyle ctx)"

definition premoveStyle :: "chessboard \<Rightarrow> white_or_black \<Rightarrow> style" where
  "premoveStyle ctx squareColor =
     (if squareColor = Black then customPremoveDarkSquareStyle ctx
      else customPremoveLightSquareStyle ctx)"

subsection \<open>Dropping a piece\<close>

text \<open>The payload of a drag: \<^verbatim>\<open>{ piece, square, id }\<close>.\<close>

record drag_item =
  item_piece :: Piece
  item_square :: Sq
  item_id :: nat

text \<open>\<^verbatim>\<open>s[0]\<close>: \<^verbatim>\<open>undefined\<close> on the empty string.\<close>

definition charAt0 :: "string \<Rightarrow> char option" where
  "charAt0 s = (case s of [] \<Rightarrow> None | c # _ \<Rightarrow> Some c)"

text \<open>
  \<^verbatim>\<open>handleDrop(item)\<close>, lines 75 to 91, as the render with context \<open>ctx\<close> and prop
  \<open>square\<close> declares it. The result is the sequence of mutator calls.
\<close>

definition handleDrop :: "chessboard \<Rightarrow> Sq \<Rightarrow> drag_item \<Rightarrow> signal list" where
  "handleDrop ctx square item =
     (if onPromotionCheck ctx (item_square item) square (item_piece item) then
        if autoPromoteToQueen ctx then
          [HandleSetPosition (item_square item) square
             (if charAt0 (item_piece item) = Some CHR ''w'' then ''wQ'' else ''bQ'') None]
        else
          [SetPromoteFromSquare (item_square item),
           SetPromoteToSquare square,
           SetShowPromoteDialog True]
      else
        [HandleSetPosition (item_square item) square (item_piece item) (Some True)])"

text \<open>The moves that a trace commits: its calls of \<^verbatim>\<open>handleSetPosition\<close>.\<close>

fun commits :: "signal list \<Rightarrow> (Sq \<times> Sq \<times> Piece \<times> bool option) list" where
  "commits [] = []"
| "commits (HandleSetPosition src tgt p flag # rest) = (src, tgt, p, flag) # commits rest"
| "commits (_ # rest) = commits rest"

text \<open>
  The registration of the drop target, lines 56 to 71. \<^verbatim>\<open>useDrop(factory, deps)\<close> of
  react-dnd memoises the object that the factory returns on the dependency array: a render
  calls the factory, and so takes the \<^verbatim>\<open>handleDrop\<close> of that render, only on mount and
  when a dependency differs from the one of the previous render. Otherwise the handler of
  the earlier render stays registered, with the context and the prop it closed over.
\<close>

type_synonym drop_deps = "Sq \<times> reference \<times> reference \<times> bool \<times> string option"

definition dropDeps :: "chessboard \<Rightarrow> Sq \<Rightarrow> drop_deps" where
  "dropDeps ctx square =
     (square, currentPosition ctx, onPieceDrop ctx, isWaitingForAnimation ctx,
      lastPieceColour ctx)"

record drop_spec =
  spec_deps :: drop_deps
  spec_ctx :: chessboard
  spec_square :: Sq

definition useDrop :: "drop_spec option \<Rightarrow> chessboard \<Rightarrow> Sq \<Rightarrow> drop_spec" where
  "useDrop registered ctx square =
     (case registered of
        None \<Rightarrow> \<lparr> spec_deps = dropDeps ctx square, spec_ctx = ctx, spec_square = square \<rparr>
      | Some spec \<Rightarrow>
          if spec_deps spec = dropDeps ctx square then spec
          else \<lparr> spec_deps = dropDeps ctx square, spec_ctx = ctx, spec_square = square \<rparr>)"

text \<open>A drop on the cell runs the registered handler.\<close>

definition dropOn :: "drop_spec \<Rightarrow> drag_item \<Rightarrow> signal list" where
  "dropOn spec item = handleDrop (spec_ctx spec) (spec_square spec) item"

subsection \<open>Mouse events\<close>

text \<open>
  A DOM node with an identity and its child nodes. \<open>descendants\<close> lists the nodes
  below a node. \<^verbatim>\<open>node.contains(other)\<close> is the DOM's inclusive test: it holds
  when \<open>other\<close> is the node itself or one of its descendants.
\<close>

datatype node = Node (node_id: nat) (childNodes: "node list")

fun descendants :: "node \<Rightarrow> node list" where
  "descendants (Node i cs) = concat (map (\<lambda>c. c # descendants c) cs)"

definition contains :: "node \<Rightarrow> node \<Rightarrow> bool" where
  "contains n other = (other = n \<or> other \<in> set (descendants n))"

text \<open>The fields of a mouse event that the handlers read.\<close>

record mouse_event =
  button :: int
  buttons :: int
  relatedTarget :: "node option"
  currentTarget :: node

text \<open>\<^verbatim>\<open>onMouseOver\<close>, lines 133 to 148.\<close>

definition onMouseOver :: "chessboard \<Rightarrow> Sq \<Rightarrow> mouse_event \<Rightarrow> signal list" where
  "onMouseOver ctx square e =
     (case currentRightClickDown ctx of
        None \<Rightarrow> []
      | Some origin \<Rightarrow>
          if buttons e = 2 \<and> origin \<noteq> [] then [DrawNewArrow origin square] else [])
     @ (if (case relatedTarget e of None \<Rightarrow> False
            | Some target \<Rightarrow> contains (currentTarget e) target)
        then []
        else [OnMouseOverSquare square])"

text \<open>\<^verbatim>\<open>onMouseOut\<close>, lines 149 to 157.\<close>

definition onMouseOut :: "Sq \<Rightarrow> mouse_event \<Rightarrow> signal list" where
  "onMouseOut square e =
     (if (case relatedTarget e of None \<Rightarrow> False
          | Some target \<Rightarrow> contains (currentTarget e) target)
      then []
      else [OnMouseOutSquare square])"

text \<open>\<^verbatim>\<open>onMouseDown\<close>, lines 158 to 160.\<close>

definition onMouseDown :: "Sq \<Rightarrow> mouse_event \<Rightarrow> signal list" where
  "onMouseDown square e = (if button e = 2 then [OnRightClickDown square] else [])"

text \<open>\<^verbatim>\<open>onMouseUp\<close>, lines 161 to 167.\<close>

definition onMouseUp :: "chessboard \<Rightarrow> Sq \<Rightarrow> mouse_event \<Rightarrow> signal list" where
  "onMouseUp ctx square e =
     (if button e = 2 then
        (case currentRightClickDown ctx of
           None \<Rightarrow> []
         | Some origin \<Rightarrow> if origin \<noteq> [] then [OnArrowDrawEnd origin square] else [])
        @ [OnRightClickUp square]
      else [])"

text \<open>\<^verbatim>\<open>onDragEnter\<close>, \<^verbatim>\<open>onClick\<close> and \<^verbatim>\<open>onContextMenu\<close>, lines 168 to 175.\<close>

definition onDragEnter :: "Sq \<Rightarrow> signal list" where
  "onDragEnter square = [OnDragOverSquare square]"

definition onClick :: "Sq \<Rightarrow> signal list" where
  "onClick square = [OnSquareClick square, ClearArrows]"

definition onContextMenu :: "signal list" where
  "onContextMenu = [PreventDefault]"

text \<open>
  Modelled from the spec: the right-click-down mutator \<^verbatim>\<open>onRightClickDown\<close> belongs
  to the context, which is not among the sources. The spec has it record the cell as the
  right-click-down origin, the field \<^verbatim>\<open>currentRightClickDown\<close> that the cells read.
\<close>

definition onRightClickDown :: "Sq \<Rightarrow> chessboard \<Rightarrow> chessboard" where
  "onRightClickDown square ctx = ctx\<lparr>currentRightClickDown := Some square\<rparr>"

text \<open>How often a signal occurs in a trace.\<close>

definition occurrences :: "signal \<Rightarrow> signal list \<Rightarrow> nat" where
  "occurrences s trace = length (filter (\<lambda>t. t = s) trace)"

subsection \<open>Touch events\<close>

text \<open>
  An element of the document, as far as the handler looks at it: its attributes.
  \<^verbatim>\<open>getAttribute\<close> returns \<^verbatim>\<open>null\<close> for an absent attribute.
\<close>

type_synonym element = "string \<rightharpoonup> string"

definition getAttribute :: "element \<Rightarrow> string \<Rightarrow> string option" where
  "getAttribute el name = el name"

text \<open>Truthiness of a string or \<^verbatim>\<open>null\<close>.\<close>

definition truthy_attr :: "string option \<Rightarrow> bool" where
  "truthy_attr a = (case a of None \<Rightarrow> False | Some s \<Rightarrow> s \<noteq> [])"

record touch =
  clientX :: real
  clientY :: real

record touch_event =
  touches :: "touch list"

datatype js_error = TypeError

text \<open>
  \<^verbatim>\<open>touchElement?.find((el) => el.getAttribute("data-square"))?.getAttribute("data-square")\<close>,
  lines 125 to 127: the attribute of the first element of the hit-test result, which is
  ordered topmost first, whose \<^verbatim>\<open>data-square\<close> is truthy.
\<close>

definition dataSquareOf :: "element list \<Rightarrow> string option" where
  "dataSquareOf touchElement =
     (case find (\<lambda>el. truthy_attr (getAttribute el ''data-square'')) touchElement of
        None \<Rightarrow> None
      | Some el \<Rightarrow> getAttribute el ''data-square'')"

text \<open>
  \<^verbatim>\<open>onTouchMove\<close>, lines 118 to 132. The document's \<^verbatim>\<open>elementsFromPoint\<close> is
  a parameter; \<open>lastSquareDraggedOver\<close> is the value that \<^verbatim>\<open>useState\<close> returned in
  the render that created the handler (lines 72 and 73). The result carries the argument of
  \<^verbatim>\<open>setLastSquareDraggedOver\<close>, when the handler calls it, and the mutator calls.
  Reading \<^verbatim>\<open>clientX\<close> of \<^verbatim>\<open>e.touches[0]\<close> throws when the event has no touch
  point. The \<^verbatim>\<open>square\<close> of the handler shadows the prop: the cell's own identity plays
  no part.
\<close>

definition onTouchMove ::
  "(real \<Rightarrow> real \<Rightarrow> element list) \<Rightarrow> Sq option \<Rightarrow> touch_event
     \<Rightarrow> js_error + (Sq option \<times> signal list)" where
  "onTouchMove elementsFromPoint lastSquareDraggedOver e =
     (case touches e of
        [] \<Rightarrow> Inl TypeError
      | touchLocation # _ \<Rightarrow>
          (case dataSquareOf
                  (elementsFromPoint (clientX touchLocation) (clientY touchLocation)) of
             None \<Rightarrow> Inr (None, [])
           | Some sq \<Rightarrow>
               if sq \<noteq> [] \<and> Some sq \<noteq> lastSquareDraggedOver
               then Inr (Some sq, [OnDragOverSquare sq])
               else Inr (None, [])))"

text \<open>
  The state of one cell instance. \<^verbatim>\<open>setLastSquareDraggedOver\<close> only stores the new
  value and schedules a render; the handlers keep reading the value of the last render
  until the instance renders again. \<open>renderedValue\<close> is \<^verbatim>\<open>lastSquareDraggedOver\<close> as
  the last render returned it, \<open>stateValue\<close> is what the next render will return.
\<close>

record cell_state =
  renderedValue :: "Sq option"
  stateValue :: "Sq option"

text \<open>One touch-move event handled by an instance, and one render of an instance.\<close>

definition touchMoveOn ::
  "(real \<Rightarrow> real \<Rightarrow> element list) \<Rightarrow> cell_state \<Rightarrow> touch_event
     \<Rightarrow> js_error + (cell_state \<times> signal list)" where
  "touchMoveOn elementsFromPoint inst e =
     (case onTouchMove elementsFromPoint (renderedValue inst) e of
        Inl err \<Rightarrow> Inl err
      | Inr (update, trace) \<Rightarrow>
          Inr (case update of None \<Rightarrow> inst | Some sq \<Rightarrow> inst\<lparr>stateValue := Some sq\<rparr>,
               trace))"








subsection \<open>Publishing the cell's position\<close>

record Coords =
  coord_x :: real
  coord_y :: real

record DOMRect =
  rect_x :: real
  rect_y :: real
  rect_width :: real
  rect_height :: real

text \<open>The mounted element, as far as the effect looks at it.\<close>

record HTMLElement =
  getBoundingClientRect :: DOMRect

text \<open>The shared map \<^verbatim>\<open>{ [square in Sq]?: Coords }\<close>.\<close>

type_synonym squares = "Sq \<rightharpoonup> Coords"

text \<open>
  The body of the effect, lines 94 to 97. \<^verbatim>\<open>setSquares\<close> is a React state
  dispatcher called with an updater, so the new map is the updater applied to the current
  one.
\<close>

definition publishCoords :: "HTMLElement option \<Rightarrow> Sq \<Rightarrow> squares \<Rightarrow> squares" where
  "publishCoords squareRef square oldSquares =
     (case squareRef of
        None \<Rightarrow> oldSquares
      | Some current \<Rightarrow>
          oldSquares(square \<mapsto>
            \<lparr> coord_x = rect_x (getBoundingClientRect current),
              coord_y = rect_y (getBoundingClientRect current) \<rparr>))"

text \<open>The dependency array of the effect, line 98.\<close>

definition effectDeps :: "chessboard \<Rightarrow> real \<times> BoardOrientation" where
  "effectDeps ctx = (boardWidth ctx, boardOrientation ctx)"

text \<open>
  React's contract for \<^verbatim>\<open>useEffect(body, deps)\<close>: after a render the body runs if
  the component has just mounted (no dependencies stored yet) or if a dependency differs
  from the one stored at the previous render.
\<close>

definition depsChanged :: "'d option \<Rightarrow> 'd \<Rightarrow> bool" where
  "depsChanged stored deps = (case stored of None \<Rightarrow> True | Some d \<Rightarrow> d \<noteq> deps)"

text \<open>
  The effect of lines 93 to 98 after one render: \<open>stored\<close> are the dependencies of the
  previous render, \<open>None\<close> on mount.
\<close>

definition afterRender ::
  "(real \<times> BoardOrientation) option \<Rightarrow> chessboard \<Rightarrow> HTMLElement option \<Rightarrow> Sq
     \<Rightarrow> squares \<Rightarrow> squares" where
  "afterRender stored ctx squareRef square oldSquares =
     (if depsChanged stored (effectDeps ctx) then publishCoords squareRef square oldSquares
      else oldSquares)"

text \<open>A mounted element and a geometry map for concrete evaluation.\<close>

definition mountedAt :: "real \<Rightarrow> real \<Rightarrow> HTMLElement" where
  "mountedAt px py =
     \<lparr> getBoundingClientRect =
         \<lparr> rect_x = px, rect_y = py, rect_width = 70, rect_height = 70 \<rparr> \<rparr>"

definition someSquares :: squares where
  "someSquares = [''a1'' \<mapsto> \<lparr> coord_x = 0, coord_y = 490 \<rparr>,
                  ''e4'' \<mapsto> \<lparr> coord_x = 280, coord_y = 280 \<rparr>]"

text \<open>A cell element with a piece image below it, and the element of a neighbouring cell.\<close>

definition pieceNode :: node where
  "pieceNode = Node 2 []"

definition cellNode :: node where
  "cellNode = Node 1 [Node 3 [pieceNode]]"

definition siblingNode :: node where
  "siblingNode = Node 10 [Node 11 []]"

text \<open>Further values for concrete evaluation.\<close>

definition promoCtx :: chessboard where
  "promoCtx = defaultCtx\<lparr>autoPromoteToQueen := True\<rparr>"

definition rightButton :: "node \<Rightarrow> mouse_event" where
  "rightButton cell = \<lparr> button = 2, buttons = 2, relatedTarget = None, currentTarget = cell \<rparr>"





section \<open>Properties\<close>

subsection \<open>Corner rounding without a configured radius\<close>

lemma borderRadius_unconfigured:
  "\<not> hasBorderRadius cbs \<Longrightarrow> borderRadius square orientation cbs = Map.empty"
  by (auto simp: borderRadius_def hasBorderRadius_def split: option.splits)

text \<open>
  Claim C8. For every cell, the four corner cells included, and for both orientations:
  when the board-level custom style supplies no truthy \<^verbatim>\<open>borderRadius\<close>, the
  corner-rounding lookup returns the empty style object. Hence a non-empty result can only
  arise when a truthy board-level \<^verbatim>\<open>borderRadius\<close> is configured.
\<close>

theorem borderRadius_needs_configuration:
  "(\<not> hasBorderRadius cbs \<longrightarrow> borderRadius square orientation cbs = Map.empty) \<and>
   (borderRadius square orientation cbs \<noteq> Map.empty \<longrightarrow> hasBorderRadius cbs)"
  using borderRadius_unconfigured by blast

theorem borderRadius_needs_configuration_witness:
  "\<not> hasBorderRadius None \<and> borderRadius ''a1'' White None = Map.empty \<and>
   \<not> hasBorderRadius (Some [''borderRadius'' \<mapsto> Num 0]) \<and>
   borderRadius ''h8'' Black (Some [''borderRadius'' \<mapsto> Num 0]) = Map.empty \<and>
   borderRadius ''a1'' White roundedBoard \<noteq> Map.empty \<and> hasBorderRadius roundedBoard"
proof -
  have n1: "\<not> hasBorderRadius None"
    by (simp add: hasBorderRadius_def boardBorderRadius_def)
  have n2: "\<not> hasBorderRadius (Some [''borderRadius'' \<mapsto> Num 0])"
    by (simp add: hasBorderRadius_def boardBorderRadius_def)
  have n3: "borderRadius ''a1'' White roundedBoard \<noteq> Map.empty"
    by (simp add: borderRadius_def boardBorderRadius_def roundedBoard_def)
  from borderRadius_needs_configuration [of None "''a1''" White] n1
  have e1: "borderRadius ''a1'' White None = Map.empty" by blast
  from borderRadius_needs_configuration [of "Some [''borderRadius'' \<mapsto> Num 0]" "''h8''" Black] n2
  have e2: "borderRadius ''h8'' Black (Some [''borderRadius'' \<mapsto> Num 0]) = Map.empty" by blast
  from borderRadius_needs_configuration [of roundedBoard "''a1''" White] n3
  have e3: "hasBorderRadius roundedBoard" by blast
  show ?thesis using n1 n2 n3 e1 e2 e3 by blast
qed

subsection \<open>Corner rounding with a configured radius\<close>

lemma borderRadius_a1:
  "boardBorderRadius cbs = Some r \<Longrightarrow> truthy r \<Longrightarrow>
   borderRadius ''a1'' orientation cbs =
     (if orientation = White then [''borderBottomLeftRadius'' \<mapsto> r] else [''borderTopRightRadius'' \<mapsto> r])"
  by (simp add: borderRadius_def)

lemma borderRadius_a8:
  "boardBorderRadius cbs = Some r \<Longrightarrow> truthy r \<Longrightarrow>
   borderRadius ''a8'' orientation cbs =
     (if orientation = White then [''borderTopLeftRadius'' \<mapsto> r] else [''borderBottomRightRadius'' \<mapsto> r])"
  by (simp add: borderRadius_def)

lemma borderRadius_h1:
  "boardBorderRadius cbs = Some r \<Longrightarrow> truthy r \<Longrightarrow>
   borderRadius ''h1'' orientation cbs =
     (if orientation = White then [''borderBottomRightRadius'' \<mapsto> r] else [''borderTopLeftRadius'' \<mapsto> r])"
  by (simp add: borderRadius_def)

lemma borderRadius_h8:
  "boardBorderRadius cbs = Some r \<Longrightarrow> truthy r \<Longrightarrow>
   borderRadius ''h8'' orientation cbs =
     (if orientation = White then [''borderTopRightRadius'' \<mapsto> r] else [''borderBottomLeftRadius'' \<mapsto> r])"
  by (simp add: borderRadius_def)

lemma borderRadius_elsewhere:
  "square \<notin> {''a1'', ''a8'', ''h1'', ''h8''} \<Longrightarrow> borderRadius square orientation cbs = Map.empty"
  by (simp add: borderRadius_def split: option.splits)

lemma singleton_map_neq: "k \<noteq> k' \<Longrightarrow> [k \<mapsto> (v::style_value)] \<noteq> [k' \<mapsto> v']"
proof
  assume neq: "k \<noteq> k'" and eq: "[k \<mapsto> v] = [k' \<mapsto> v']"
  from eq have "[k \<mapsto> v] k = [k' \<mapsto> v'] k" by simp
  with neq show False by simp
qed

lemma borderRadius_corner:
  assumes r: "boardBorderRadius cbs = Some r" "truthy r"
    and c: "square \<in> {''a1'', ''a8'', ''h1'', ''h8''}"
  shows "(\<exists>k. borderRadius square orientation cbs = [k \<mapsto> r]) \<and>
         borderRadius square White cbs \<noteq> borderRadius square Black cbs"
proof -
  from c consider "square = ''a1''" | "square = ''a8''" | "square = ''h1''" | "square = ''h8''"
    by auto
  then show ?thesis
  proof cases
    case 1 then show ?thesis using r by (auto simp: borderRadius_a1 singleton_map_neq)
  next
    case 2 then show ?thesis using r by (auto simp: borderRadius_a8 singleton_map_neq)
  next
    case 3 then show ?thesis using r by (auto simp: borderRadius_h1 singleton_map_neq)
  next
    case 4 then show ?thesis using r by (auto simp: borderRadius_h8 singleton_map_neq)
  qed
qed

text \<open>
  Claim C3, as amended. Provided that the board-level custom style supplies a truthy
  \<^verbatim>\<open>borderRadius\<close>: for each of the four corner cells a1, a8, h1 and h8 and for
  each orientation, the corner-rounding lookup returns a style with exactly one entry,
  whose value is the configured radius, and for the same corner the style differs between
  the two orientations. For every other cell the lookup returns the empty style under both
  orientations, whatever the board-level style is.
\<close>

theorem borderRadius_corner_lookup:
  "(hasBorderRadius cbs \<longrightarrow> square \<in> {''a1'', ''a8'', ''h1'', ''h8''} \<longrightarrow>
        card (dom (borderRadius square orientation cbs)) = 1 \<and>
        ran (borderRadius square orientation cbs) = {r. boardBorderRadius cbs = Some r} \<and>
        borderRadius square White cbs \<noteq> borderRadius square Black cbs) \<and>
   (other \<notin> {''a1'', ''a8'', ''h1'', ''h8''} \<longrightarrow>
        borderRadius other orientation anyStyle = Map.empty)"
proof (intro conjI impI)
  assume h: "hasBorderRadius cbs" and c: "square \<in> {''a1'', ''a8'', ''h1'', ''h8''}"
  from h obtain r where r: "boardBorderRadius cbs = Some r" "truthy r"
    by (auto simp: hasBorderRadius_def split: option.splits)
  from borderRadius_corner [OF r c, of orientation]
  obtain k where k: "borderRadius square orientation cbs = [k \<mapsto> r]"
    and d: "borderRadius square White cbs \<noteq> borderRadius square Black cbs" by blast
  show "card (dom (borderRadius square orientation cbs)) = 1" by (simp add: k)
  show "ran (borderRadius square orientation cbs) = {r. boardBorderRadius cbs = Some r}"
    by (simp add: k r)
  show "borderRadius square White cbs \<noteq> borderRadius square Black cbs" by (rule d)
next
  assume "other \<notin> {''a1'', ''a8'', ''h1'', ''h8''}"
  then show "borderRadius other orientation anyStyle = Map.empty"
    by (rule borderRadius_elsewhere)
qed

text \<open>
  Without a configured radius the lookup returns the empty style for the corner a1, the
  same under both orientations.
\<close>

theorem borderRadius_corner_lookup_counterexample:
  "borderRadius ''a1'' White None = Map.empty \<and>
   borderRadius ''a1'' White None = borderRadius ''a1'' Black None"
  by (simp add: borderRadius_def boardBorderRadius_def)


theorem borderRadius_corner_lookup_witness:
  "hasBorderRadius roundedBoard \<and> ''a1'' \<in> {''a1'', ''a8'', ''h1'', ''h8''} \<and>
   card (dom (borderRadius ''a1'' Black roundedBoard)) = 1 \<and>
   ran (borderRadius ''a1'' Black roundedBoard) = {Str ''4px''} \<and>
   borderRadius ''a1'' White roundedBoard \<noteq> borderRadius ''a1'' Black roundedBoard \<and>
   ''e4'' \<notin> {''a1'', ''a8'', ''h1'', ''h8''} \<and>
   borderRadius ''e4'' White roundedBoard = Map.empty \<and>
   borderRadius ''e4'' Black None = Map.empty"
proof -
  have h: "hasBorderRadius roundedBoard"
    by (simp add: hasBorderRadius_def boardBorderRadius_def roundedBoard_def)
  have b: "{r. boardBorderRadius roundedBoard = Some r} = {Str ''4px''}"
    by (auto simp: boardBorderRadius_def roundedBoard_def)
  have c: "''a1'' \<in> {''a1'', ''a8'', ''h1'', ''h8''}" by simp
  have n: "''e4'' \<notin> {''a1'', ''a8'', ''h1'', ''h8''}" by simp
  from borderRadius_corner_lookup [where cbs = roundedBoard and square = "''a1''"
      and orientation = Black and other = "''e4''" and anyStyle = None] h c n
  have 1: "card (dom (borderRadius ''a1'' Black roundedBoard)) = 1 \<and>
        ran (borderRadius ''a1'' Black roundedBoard) = {r. boardBorderRadius roundedBoard = Some r} \<and>
        borderRadius ''a1'' White roundedBoard \<noteq> borderRadius ''a1'' Black roundedBoard"
    and 3: "borderRadius ''e4'' Black None = Map.empty"
    by blast+
  from borderRadius_corner_lookup [where other = "''e4''" and orientation = White
      and anyStyle = roundedBoard] n
  have 2: "borderRadius ''e4'' White roundedBoard = Map.empty" by blast
  show ?thesis using h b c n 1 2 3 by simp
qed

subsection \<open>The style of a cell with a premove\<close>

lemma defaultSquareStyle_ignores_customSquareStyles:
  "defaultSquareStyle (ctx\<lparr>customSquareStyles := css\<rparr>) square squareColor squareHasPremove isOver =
   defaultSquareStyle ctx square squareColor squareHasPremove isOver"
  by (simp add: defaultSquareStyle_def)

lemma innerStyle_premove:
  "innerStyle ctx square True = size_style (boardWidth ctx) ++ center"
  by (simp add: innerStyle_def spreadIf_def)

lemma defaultSquareStyle_premove:
  "defaultSquareStyle ctx square squareColor True isOver =
     borderRadius square (boardOrientation ctx) (customBoardStyle ctx)
     ++ baseStyle ctx squareColor ++ premoveStyle ctx squareColor
     ++ (if isOver then customDropSquareStyle ctx else Map.empty)"
  by (simp add: defaultSquareStyle_def spreadIf_def baseStyle_def premoveStyle_def)

text \<open>
  Claim C2, as amended. For every cell whose premove flag is true, the style of the outer
  element is the shallow merge, in this order, of corner rounding, base colour style,
  premove style (the dark or the light variant, by the cell's colour) and, only while a
  drag hovers over the cell, the drop style. So it does not depend on the per-cell custom
  styles; every property that the premove style sets has the premove value, unless the
  cell is hovered and the drop style sets that property too, and then it has the drop
  value; and a property that the premove style does not set, and that the drop style does
  not set or the cell is not hovered, keeps the value that corner rounding and base colour
  style give it. The style of the inner element is size and centring alone: the per-cell
  custom style is suppressed.
\<close>

theorem premove_style_layers:
  "style_outer (Square (ctx\<lparr>customSquareStyles := css\<rparr>) square squareColor True isOver) =
      borderRadius square (boardOrientation ctx) (customBoardStyle ctx)
      ++ baseStyle ctx squareColor ++ premoveStyle ctx squareColor
      ++ (if isOver then customDropSquareStyle ctx else Map.empty) \<and>
   style_outer (Square (ctx\<lparr>customSquareStyles := css\<rparr>) square squareColor True isOver) =
      defaultSquareStyle ctx square squareColor True isOver \<and>
   (k \<in> dom (premoveStyle ctx squareColor) \<longrightarrow>
      defaultSquareStyle ctx square squareColor True False k = premoveStyle ctx squareColor k) \<and>
   (k \<in> dom (premoveStyle ctx squareColor) \<longrightarrow> k \<notin> dom (customDropSquareStyle ctx) \<longrightarrow>
      defaultSquareStyle ctx square squareColor True True k = premoveStyle ctx squareColor k) \<and>
   (k \<in> dom (customDropSquareStyle ctx) \<longrightarrow>
      defaultSquareStyle ctx square squareColor True True k = customDropSquareStyle ctx k) \<and>
   (k \<notin> dom (premoveStyle ctx squareColor) \<longrightarrow>
      defaultSquareStyle ctx square squareColor True False k =
        (borderRadius square (boardOrientation ctx) (customBoardStyle ctx)
         ++ baseStyle ctx squareColor) k) \<and>
   (k \<notin> dom (premoveStyle ctx squareColor) \<longrightarrow> k \<notin> dom (customDropSquareStyle ctx) \<longrightarrow>
      defaultSquareStyle ctx square squareColor True isOver k =
        (borderRadius square (boardOrientation ctx) (customBoardStyle ctx)
         ++ baseStyle ctx squareColor) k) \<and>
   style_inner (Square (ctx\<lparr>customSquareStyles := css\<rparr>) square squareColor True isOver) =
      size_style (boardWidth ctx) ++ center"
proof (intro conjI impI)
  show "style_outer (Square (ctx\<lparr>customSquareStyles := css\<rparr>) square squareColor True isOver) =
      borderRadius square (boardOrientation ctx) (customBoardStyle ctx)
      ++ baseStyle ctx squareColor ++ premoveStyle ctx squareColor
      ++ (if isOver then customDropSquareStyle ctx else Map.empty)"
  proof -
    have "style_outer (Square (ctx\<lparr>customSquareStyles := css\<rparr>) square squareColor True isOver) =
        defaultSquareStyle ctx square squareColor True isOver"
      by (simp add: Square_def defaultSquareStyle_ignores_customSquareStyles)
    then show ?thesis by (simp only: defaultSquareStyle_premove)
  qed
next
  show "style_outer (Square (ctx\<lparr>customSquareStyles := css\<rparr>) square squareColor True isOver) =
      defaultSquareStyle ctx square squareColor True isOver"
    by (simp add: Square_def defaultSquareStyle_ignores_customSquareStyles)
next
  assume "k \<in> dom (premoveStyle ctx squareColor)"
  then show "defaultSquareStyle ctx square squareColor True False k = premoveStyle ctx squareColor k"
    by (auto simp: defaultSquareStyle_premove map_add_def split: option.splits)
next
  assume "k \<in> dom (premoveStyle ctx squareColor)" "k \<notin> dom (customDropSquareStyle ctx)"
  then show "defaultSquareStyle ctx square squareColor True True k = premoveStyle ctx squareColor k"
    by (auto simp: defaultSquareStyle_premove map_add_def split: option.splits)
next
  assume "k \<in> dom (customDropSquareStyle ctx)"
  then show "defaultSquareStyle ctx square squareColor True True k = customDropSquareStyle ctx k"
    by (auto simp: defaultSquareStyle_premove map_add_def split: option.splits)
next
  assume "k \<notin> dom (premoveStyle ctx squareColor)"
  then show "defaultSquareStyle ctx square squareColor True False k =
        (borderRadius square (boardOrientation ctx) (customBoardStyle ctx)
         ++ baseStyle ctx squareColor) k"
    by (auto simp: defaultSquareStyle_premove map_add_def split: option.splits)
next
  assume "k \<notin> dom (premoveStyle ctx squareColor)" "k \<notin> dom (customDropSquareStyle ctx)"
  then show "defaultSquareStyle ctx square squareColor True isOver k =
        (borderRadius square (boardOrientation ctx) (customBoardStyle ctx)
         ++ baseStyle ctx squareColor) k"
    by (auto simp: defaultSquareStyle_premove map_add_def split: option.splits)
next
  show "style_inner (Square (ctx\<lparr>customSquareStyles := css\<rparr>) square squareColor True isOver) =
      size_style (boardWidth ctx) ++ center"
    by (simp add: Square_def innerStyle_premove split: CustomSquare.splits)
qed

text \<open>
  With a base style that sets a border besides the colour, the style of a dark cell with
  a premove keeps the border and so differs from the premove style.
\<close>

theorem premove_style_counterexample:
  "defaultSquareStyle borderedCtx ''e5'' Black True False \<noteq>
     customPremoveDarkSquareStyle borderedCtx \<and>
   defaultSquareStyle borderedCtx ''e5'' Black True False ''border'' =
     Some (Str ''1px solid black'') \<and>
   customPremoveDarkSquareStyle borderedCtx ''border'' = None"
proof -
  have 1: "defaultSquareStyle borderedCtx ''e5'' Black True False ''border'' =
     Some (Str ''1px solid black'')"
    by (simp add: defaultSquareStyle_def borderedCtx_def defaultCtx_def spreadIf_def
        borderRadius_def boardBorderRadius_def roundedBoard_def)
  have 2: "customPremoveDarkSquareStyle borderedCtx ''border'' = None"
    by (simp add: borderedCtx_def defaultCtx_def)
  from 1 2 have "defaultSquareStyle borderedCtx ''e5'' Black True False \<noteq>
     customPremoveDarkSquareStyle borderedCtx" by auto
  with 1 2 show ?thesis by blast
qed

theorem premove_style_layers_witness:
  "style_outer (Square borderedCtx ''e5'' Black True False) =
     [''backgroundColor'' \<mapsto> Str ''#A42323'', ''border'' \<mapsto> Str ''1px solid black''] \<and>
   ''backgroundColor'' \<in> dom (premoveStyle borderedCtx Black) \<and>
   ''backgroundColor'' \<notin> dom (customDropSquareStyle borderedCtx) \<and>
   defaultSquareStyle borderedCtx ''e5'' Black True False ''backgroundColor'' = Some (Str ''#A42323'') \<and>
   defaultSquareStyle borderedCtx ''e5'' Black True True ''backgroundColor'' = Some (Str ''#A42323'') \<and>
   ''boxShadow'' \<in> dom (customDropSquareStyle borderedCtx) \<and>
   defaultSquareStyle borderedCtx ''e5'' Black True True ''boxShadow'' =
     Some (Str ''inset 0 0 1px 6px rgba(255,255,255,0.75)'') \<and>
   ''boxShadow'' \<notin> dom (premoveStyle borderedCtx Black) \<and>
   defaultSquareStyle borderedCtx ''e5'' Black True False ''boxShadow'' = None \<and>
   ''border'' \<notin> dom (premoveStyle borderedCtx Black) \<and>
   ''border'' \<notin> dom (customDropSquareStyle borderedCtx) \<and>
   defaultSquareStyle borderedCtx ''e5'' Black True True ''border'' = Some (Str ''1px solid black'') \<and>
   style_inner (Square borderedCtx ''e5'' Black True True) ''backgroundColor'' = None"
proof -
  let ?css = "Some [''e5'' \<mapsto> [''backgroundColor'' \<mapsto> Str ''yellow'']]"
  have same: "borderedCtx\<lparr>customSquareStyles := ?css\<rparr> = borderedCtx"
    by (simp add: borderedCtx_def defaultCtx_def)
  have p: "premoveStyle borderedCtx Black = [''backgroundColor'' \<mapsto> Str ''#A42323'']"
    by (simp add: premoveStyle_def borderedCtx_def defaultCtx_def)
  have d: "customDropSquareStyle borderedCtx =
      [''boxShadow'' \<mapsto> Str ''inset 0 0 1px 6px rgba(255,255,255,0.75)'']"
    by (simp add: borderedCtx_def defaultCtx_def)
  have cb: "borderRadius ''e5'' (boardOrientation borderedCtx) (customBoardStyle borderedCtx)
         ++ baseStyle borderedCtx Black =
       [''backgroundColor'' \<mapsto> Str ''#B58863'', ''border'' \<mapsto> Str ''1px solid black'']"
    by (simp add: baseStyle_def borderedCtx_def defaultCtx_def borderRadius_def
        boardBorderRadius_def roundedBoard_def)
  have w: "boardWidth borderedCtx = 560"
    by (simp add: borderedCtx_def defaultCtx_def)
  have h1: "''backgroundColor'' \<in> dom (premoveStyle borderedCtx Black)" by (simp add: p)
  have h2: "''backgroundColor'' \<notin> dom (customDropSquareStyle borderedCtx)" by (simp add: d)
  have h3: "''boxShadow'' \<in> dom (customDropSquareStyle borderedCtx)" by (simp add: d)
  have h4: "''border'' \<notin> dom (premoveStyle borderedCtx Black)" by (simp add: p)
  have h5: "''border'' \<notin> dom (customDropSquareStyle borderedCtx)" by (simp add: d)
  have h6: "''boxShadow'' \<notin> dom (premoveStyle borderedCtx Black)" by (simp add: p)
  note t0 = premove_style_layers [where ctx = borderedCtx and css = ?css
      and square = "''e5''" and squareColor = Black and isOver = False and k = "''boxShadow''"]
  note t1 = premove_style_layers [where ctx = borderedCtx and css = ?css
      and square = "''e5''" and squareColor = Black and isOver = True and k = "''backgroundColor''"]
  note t2 = premove_style_layers [where ctx = borderedCtx and css = ?css
      and square = "''e5''" and squareColor = Black and isOver = True and k = "''boxShadow''"]
  note t3 = premove_style_layers [where ctx = borderedCtx and css = ?css
      and square = "''e5''" and squareColor = Black and isOver = True and k = "''border''"]
  from t0 have "style_outer (Square borderedCtx ''e5'' Black True False) =
      (borderRadius ''e5'' (boardOrientation borderedCtx) (customBoardStyle borderedCtx)
         ++ baseStyle borderedCtx Black) ++ premoveStyle borderedCtx Black"
    by (simp add: same)
  then have c0: "style_outer (Square borderedCtx ''e5'' Black True False) =
     [''backgroundColor'' \<mapsto> Str ''#A42323'', ''border'' \<mapsto> Str ''1px solid black'']"
    by (auto simp: cb p)
  from t0 h6 have c6: "defaultSquareStyle borderedCtx ''e5'' Black True False ''boxShadow'' = None"
    by (simp add: cb)
  from t1 h1 have c1: "defaultSquareStyle borderedCtx ''e5'' Black True False ''backgroundColor'' =
      Some (Str ''#A42323'')" by (simp add: p)
  from t1 h1 h2 have c2: "defaultSquareStyle borderedCtx ''e5'' Black True True ''backgroundColor'' =
      Some (Str ''#A42323'')" by (simp add: p)
  from t2 h3 have c3: "defaultSquareStyle borderedCtx ''e5'' Black True True ''boxShadow'' =
     Some (Str ''inset 0 0 1px 6px rgba(255,255,255,0.75)'')" by (simp add: d)
  from t3 h4 h5 have c4: "defaultSquareStyle borderedCtx ''e5'' Black True True ''border'' =
      Some (Str ''1px solid black'')" by (simp add: cb)
  from t1 have c5: "style_inner (Square borderedCtx ''e5'' Black True True)
     ''backgroundColor'' = None"
    by (simp add: same w size_style_def center_def)
  show ?thesis using h1 h2 h3 h4 h5 h6 c0 c1 c2 c3 c4 c5 c6 by blast
qed

subsection \<open>Dropping a piece\<close>

lemma handleDrop_autoPromote:
  "onPromotionCheck ctx (item_square item) square (item_piece item) \<Longrightarrow>
   autoPromoteToQueen ctx \<Longrightarrow>
   handleDrop ctx square item =
     [HandleSetPosition (item_square item) square
        (if charAt0 (item_piece item) = Some CHR ''w'' then ''wQ'' else ''bQ'') None]"
  by (simp add: handleDrop_def)

lemma handleDrop_dialog:
  "onPromotionCheck ctx (item_square item) square (item_piece item) \<Longrightarrow>
   \<not> autoPromoteToQueen ctx \<Longrightarrow>
   handleDrop ctx square item =
     [SetPromoteFromSquare (item_square item), SetPromoteToSquare square,
      SetShowPromoteDialog True]"
  by (simp add: handleDrop_def)

lemma handleDrop_plain:
  "\<not> onPromotionCheck ctx (item_square item) square (item_piece item) \<Longrightarrow>
   handleDrop ctx square item =
     [HandleSetPosition (item_square item) square (item_piece item) (Some True)]"
  by (simp add: handleDrop_def)

lemma charAt0_white: "charAt0 (CHR ''w'' # rest) = Some CHR ''w''"
  by (simp add: charAt0_def)

lemma charAt0_black: "charAt0 (CHR ''b'' # rest) \<noteq> Some CHR ''w''"
  by (simp add: charAt0_def)

text \<open>
  The handler that a render declares, by its three branches. With the promotion check and
  auto-promote of that render: the only call commits the move from the origin to the cell
  with the queen of the payload's colour; or the calls set the promotion origin and target
  and show the dialog, and no move is committed; or the only call commits the move with the
  payload's piece and the fourth argument \<^verbatim>\<open>true\<close>.
\<close>

lemma handleDrop_branches:
  "(onPromotionCheck ctx (item_square item) square (item_piece item) \<and> autoPromoteToQueen ctx \<longrightarrow>
      handleDrop ctx square item =
        [HandleSetPosition (item_square item) square
           (if charAt0 (item_piece item) = Some CHR ''w'' then ''wQ'' else ''bQ'') None] \<and>
      (\<forall>kind. item_piece item = CHR ''w'' # kind \<longrightarrow>
         commits (handleDrop ctx square item) = [(item_square item, square, ''wQ'', None)]) \<and>
      (\<forall>kind. item_piece item = CHR ''b'' # kind \<longrightarrow>
         commits (handleDrop ctx square item) = [(item_square item, square, ''bQ'', None)])) \<and>
   (onPromotionCheck ctx (item_square item) square (item_piece item) \<and> \<not> autoPromoteToQueen ctx \<longrightarrow>
      handleDrop ctx square item =
        [SetPromoteFromSquare (item_square item), SetPromoteToSquare square,
         SetShowPromoteDialog True] \<and>
      commits (handleDrop ctx square item) = []) \<and>
   (\<not> onPromotionCheck ctx (item_square item) square (item_piece item) \<longrightarrow>
      handleDrop ctx square item =
        [HandleSetPosition (item_square item) square (item_piece item) (Some True)] \<and>
      commits (handleDrop ctx square item) =
        [(item_square item, square, item_piece item, Some True)])"
proof (intro conjI impI allI)
  assume a: "onPromotionCheck ctx (item_square item) square (item_piece item) \<and> autoPromoteToQueen ctx"
  then show "handleDrop ctx square item =
        [HandleSetPosition (item_square item) square
           (if charAt0 (item_piece item) = Some CHR ''w'' then ''wQ'' else ''bQ'') None]"
    by (simp add: handleDrop_autoPromote)
  fix kind
  { assume "item_piece item = CHR ''w'' # kind"
    with a show "commits (handleDrop ctx square item) = [(item_square item, square, ''wQ'', None)]"
      by (simp add: handleDrop_autoPromote charAt0_white) }
  { assume "item_piece item = CHR ''b'' # kind"
    with a show "commits (handleDrop ctx square item) = [(item_square item, square, ''bQ'', None)]"
      by (simp add: handleDrop_autoPromote charAt0_black) }
next
  assume a: "onPromotionCheck ctx (item_square item) square (item_piece item) \<and> \<not> autoPromoteToQueen ctx"
  then show "handleDrop ctx square item =
        [SetPromoteFromSquare (item_square item), SetPromoteToSquare square,
         SetShowPromoteDialog True]"
    by (simp add: handleDrop_dialog)
  from a show "commits (handleDrop ctx square item) = []"
    by (simp add: handleDrop_dialog)
next
  assume a: "\<not> onPromotionCheck ctx (item_square item) square (item_piece item)"
  then show "handleDrop ctx square item =
        [HandleSetPosition (item_square item) square (item_piece item) (Some True)]"
    by (simp add: handleDrop_plain)
  from a show "commits (handleDrop ctx square item) =
        [(item_square item, square, item_piece item, Some True)]"
    by (simp add: handleDrop_plain)
qed

text \<open>
  The fourth argument of \<^verbatim>\<open>handleSetPosition\<close>: absent on the auto-promote path,
  \<^verbatim>\<open>true\<close> on the path without promotion.
\<close>

lemma handleDrop_flags:
  "(onPromotionCheck ctx (item_square item) square (item_piece item) \<and> autoPromoteToQueen ctx \<longrightarrow>
      map (\<lambda>(src, tgt, p, flag). flag) (commits (handleDrop ctx square item)) = [None]) \<and>
   (\<not> onPromotionCheck ctx (item_square item) square (item_piece item) \<longrightarrow>
      map (\<lambda>(src, tgt, p, flag). flag) (commits (handleDrop ctx square item)) = [Some True])"
  by (simp add: handleDrop_autoPromote handleDrop_plain)

text \<open>
  The handler that a drop runs: the one of the mount until a dependency of
  \<^verbatim>\<open>useDrop\<close> changes, whatever else of the context has changed since.
\<close>

lemma useDrop_mount:
  "useDrop None ctx square =
     \<lparr> spec_deps = dropDeps ctx square, spec_ctx = ctx, spec_square = square \<rparr>"
  by (simp add: useDrop_def)

lemma useDrop_kept:
  "dropDeps ctx' square' = dropDeps ctx square \<Longrightarrow>
   useDrop (Some (useDrop None ctx square)) ctx' square' = useDrop None ctx square"
  by (simp add: useDrop_def)

lemma useDrop_renewed:
  "dropDeps ctx' square' \<noteq> dropDeps ctx square \<Longrightarrow>
   useDrop (Some (useDrop None ctx square)) ctx' square' = useDrop None ctx' square'"
  by (simp add: useDrop_def)

lemma dropOn_mount: "dropOn (useDrop None ctx square) item = handleDrop ctx square item"
  by (simp add: dropOn_def useDrop_def)

lemma dropOn_stale:
  "dropDeps ctx' square' = dropDeps ctx square \<Longrightarrow>
   dropOn (useDrop (Some (useDrop None ctx square)) ctx' square') item =
     handleDrop ctx square item"
  by (simp add: useDrop_kept dropOn_mount)

lemma dropOn_renewed:
  "dropDeps ctx' square' \<noteq> dropDeps ctx square \<Longrightarrow>
   dropOn (useDrop (Some (useDrop None ctx square)) ctx' square') item =
     handleDrop ctx' square' item"
  by (simp add: useDrop_renewed dropOn_mount)

lemma defaultCtx_check:
  "onPromotionCheck defaultCtx src tgt p =
     ((p = ''wP'' \<and> take 1 (drop 1 tgt) = ''8'') \<or> (p = ''bP'' \<and> take 1 (drop 1 tgt) = ''1''))"
  by (simp add: defaultCtx_def)

lemma promoCtx_check:
  "onPromotionCheck promoCtx src tgt p = onPromotionCheck defaultCtx src tgt p"
  by (simp add: promoCtx_def)

lemma promoCtx_auto: "autoPromoteToQueen promoCtx"
  by (simp add: promoCtx_def)

lemma defaultCtx_auto: "\<not> autoPromoteToQueen defaultCtx"
  by (simp add: defaultCtx_def)

lemma promoCtx_deps: "dropDeps promoCtx square = dropDeps defaultCtx square"
  by (simp add: dropDeps_def promoCtx_def)

text \<open>
  Claim C1. For every drop of a payload onto a cell, the promotion check and the
  auto-promote flag decide what happens: commit with the queen of the payload's colour,
  open the promotion dialog without a commit, or commit the payload's piece. The code
  departs from this. The cell is mounted with auto-promote off and renders again with
  auto-promote on, while square, position, drop callback, animation flag and last piece
  colour are as before; so \<^verbatim>\<open>useDrop\<close> keeps the handler of the mount. A white pawn
  dropped from e7 on e8, for which the promotion check holds, then opens the promotion
  dialog and commits nothing, where the handler of the current render would commit the move
  with \<^verbatim>\<open>wQ\<close>.
\<close>

theorem drop_runs_stale_handler:
  "autoPromoteToQueen promoCtx \<and> onPromotionCheck promoCtx ''e7'' ''e8'' ''wP'' \<and>
   dropOn (useDrop (Some (useDrop None defaultCtx ''e8'')) promoCtx ''e8'')
       \<lparr> item_piece = ''wP'', item_square = ''e7'', item_id = 0 \<rparr> =
     [SetPromoteFromSquare ''e7'', SetPromoteToSquare ''e8'', SetShowPromoteDialog True] \<and>
   commits (dropOn (useDrop (Some (useDrop None defaultCtx ''e8'')) promoCtx ''e8'')
       \<lparr> item_piece = ''wP'', item_square = ''e7'', item_id = 0 \<rparr>) = [] \<and>
   handleDrop promoCtx ''e8'' \<lparr> item_piece = ''wP'', item_square = ''e7'', item_id = 0 \<rparr> =
     [HandleSetPosition ''e7'' ''e8'' ''wQ'' None]"
proof -
  let ?item = "\<lparr> item_piece = ''wP'', item_square = ''e7'', item_id = 0 \<rparr>"
  have p: "onPromotionCheck promoCtx ''e7'' ''e8'' ''wP''"
    by (simp add: promoCtx_check defaultCtx_check)
  have q: "onPromotionCheck defaultCtx ''e7'' ''e8'' ''wP''"
    by (simp add: defaultCtx_check)
  have stale: "dropOn (useDrop (Some (useDrop None defaultCtx ''e8'')) promoCtx ''e8'') ?item =
      handleDrop defaultCtx ''e8'' ?item"
    by (rule dropOn_stale) (rule promoCtx_deps)
  have old: "handleDrop defaultCtx ''e8'' ?item =
      [SetPromoteFromSquare ''e7'', SetPromoteToSquare ''e8'', SetShowPromoteDialog True]"
    using q defaultCtx_auto by (simp add: handleDrop_def)
  have new: "handleDrop promoCtx ''e8'' ?item = [HandleSetPosition ''e7'' ''e8'' ''wQ'' None]"
    using p promoCtx_auto by (simp add: handleDrop_def charAt0_def)
  show ?thesis using p promoCtx_auto by (simp add: stale old new)
qed

subsection \<open>Publishing the position\<close>

lemma afterRender_mount:
  "afterRender None ctx squareRef square old = publishCoords squareRef square old"
  by (simp add: afterRender_def depsChanged_def)

lemma afterRender_changed:
  "boardWidth ctx \<noteq> boardWidth prev \<or> boardOrientation ctx \<noteq> boardOrientation prev \<Longrightarrow>
   afterRender (Some (effectDeps prev)) ctx squareRef square old =
     publishCoords squareRef square old"
  by (auto simp: afterRender_def depsChanged_def effectDeps_def)

lemma afterRender_unchanged:
  "boardWidth ctx = boardWidth prev \<Longrightarrow> boardOrientation ctx = boardOrientation prev \<Longrightarrow>
   afterRender (Some (effectDeps prev)) ctx squareRef square old = old"
  by (simp add: afterRender_def depsChanged_def effectDeps_def)

lemma publishCoords_mounted:
  "publishCoords (Some el) square old =
     old(square \<mapsto> \<lparr> coord_x = rect_x (getBoundingClientRect el),
                      coord_y = rect_y (getBoundingClientRect el) \<rparr>)"
  by (simp add: publishCoords_def)

lemma publishCoords_unmounted: "publishCoords None square old = old"
  by (simp add: publishCoords_def)

lemma publishCoords_other:
  "other \<noteq> square \<Longrightarrow> publishCoords squareRef square old other = old other"
  by (simp add: publishCoords_def split: option.splits)

text \<open>
  Claim C4. After the mount, and after a render in which the board width or the
  orientation differs from the previous render, the effect writes the coordinates of the
  mounted element into the shared map under this cell's identity. After a render in which
  both are as before, the map stays as it is, whatever else has changed. When the element is
  not mounted the map stays as it is. A publication leaves the entries of all other cells
  as they were.
\<close>

theorem geometry_publication:
  "afterRender None ctx (Some el) square old =
     old(square \<mapsto> \<lparr> coord_x = rect_x (getBoundingClientRect el),
                      coord_y = rect_y (getBoundingClientRect el) \<rparr>) \<and>
   (boardWidth ctx \<noteq> boardWidth prev \<or> boardOrientation ctx \<noteq> boardOrientation prev \<longrightarrow>
      afterRender (Some (effectDeps prev)) ctx (Some el) square old =
        old(square \<mapsto> \<lparr> coord_x = rect_x (getBoundingClientRect el),
                         coord_y = rect_y (getBoundingClientRect el) \<rparr>)) \<and>
   (boardWidth ctx = boardWidth prev \<and> boardOrientation ctx = boardOrientation prev \<longrightarrow>
      afterRender (Some (effectDeps prev)) ctx squareRef square' old = old) \<and>
   afterRender stored ctx None square old = old \<and>
   (other \<noteq> square \<longrightarrow> afterRender stored ctx squareRef square old other = old other)"
proof (intro conjI impI)
  show "afterRender None ctx (Some el) square old =
     old(square \<mapsto> \<lparr> coord_x = rect_x (getBoundingClientRect el),
                      coord_y = rect_y (getBoundingClientRect el) \<rparr>)"
    by (simp add: afterRender_mount publishCoords_mounted)
  show "afterRender stored ctx None square old = old"
    by (simp add: afterRender_def publishCoords_unmounted)
next
  assume "boardWidth ctx \<noteq> boardWidth prev \<or> boardOrientation ctx \<noteq> boardOrientation prev"
  then show "afterRender (Some (effectDeps prev)) ctx (Some el) square old =
        old(square \<mapsto> \<lparr> coord_x = rect_x (getBoundingClientRect el),
                         coord_y = rect_y (getBoundingClientRect el) \<rparr>)"
    by (simp add: afterRender_changed publishCoords_mounted)
next
  assume "boardWidth ctx = boardWidth prev \<and> boardOrientation ctx = boardOrientation prev"
  then show "afterRender (Some (effectDeps prev)) ctx squareRef square' old = old"
    by (simp add: afterRender_unchanged)
next
  assume "other \<noteq> square"
  then show "afterRender stored ctx squareRef square old other = old other"
    by (simp add: afterRender_def publishCoords_other)
qed

theorem geometry_publication_witness:
  "afterRender None defaultCtx (Some (mountedAt 280 210)) ''e5'' someSquares ''e5'' =
     Some \<lparr> coord_x = 280, coord_y = 210 \<rparr> \<and>
   boardWidth (defaultCtx\<lparr>boardWidth := 640\<rparr>) \<noteq> boardWidth defaultCtx \<and>
   afterRender (Some (effectDeps defaultCtx)) (defaultCtx\<lparr>boardWidth := 640\<rparr>)
       (Some (mountedAt 320 240)) ''e4'' someSquares ''e4'' =
     Some \<lparr> coord_x = 320, coord_y = 240 \<rparr> \<and>
   boardWidth (defaultCtx\<lparr>customSquareStyles := None\<rparr>) = boardWidth defaultCtx \<and>
   boardOrientation (defaultCtx\<lparr>customSquareStyles := None\<rparr>) = boardOrientation defaultCtx \<and>
   afterRender (Some (effectDeps defaultCtx)) (defaultCtx\<lparr>customSquareStyles := None\<rparr>)
       (Some (mountedAt 320 240)) ''e4'' someSquares = someSquares \<and>
   ''a1'' \<noteq> ''e4'' \<and>
   afterRender None defaultCtx (Some (mountedAt 320 240)) ''e4'' someSquares ''a1'' =
     Some \<lparr> coord_x = 0, coord_y = 490 \<rparr>"
proof -
  let ?wide = "defaultCtx\<lparr>boardWidth := 640\<rparr>"
  let ?restyled = "defaultCtx\<lparr>customSquareStyles := None\<rparr>"
  have h1: "boardWidth ?wide \<noteq> boardWidth defaultCtx"
    by (simp add: defaultCtx_def)
  have h2: "boardWidth ?restyled = boardWidth defaultCtx \<and>
            boardOrientation ?restyled = boardOrientation defaultCtx" by simp
  have h3: "''a1'' \<noteq> ''e4''" by simp
  have r: "rect_x (getBoundingClientRect (mountedAt px py)) = px"
          "rect_y (getBoundingClientRect (mountedAt px py)) = py" for px py
    by (simp_all add: mountedAt_def)
  from geometry_publication [where ctx = defaultCtx and el = "mountedAt 280 210"
      and square = "''e5''" and old = someSquares]
  have c1: "afterRender None defaultCtx (Some (mountedAt 280 210)) ''e5'' someSquares ''e5'' =
     Some \<lparr> coord_x = 280, coord_y = 210 \<rparr>" by (simp add: r)
  from geometry_publication [where ctx = ?wide and prev = defaultCtx
      and el = "mountedAt 320 240" and square = "''e4''" and old = someSquares] h1
  have c2: "afterRender (Some (effectDeps defaultCtx)) ?wide
       (Some (mountedAt 320 240)) ''e4'' someSquares ''e4'' =
     Some \<lparr> coord_x = 320, coord_y = 240 \<rparr>" by (simp add: r)
  from geometry_publication [where ctx = ?restyled and prev = defaultCtx
      and squareRef = "Some (mountedAt 320 240)" and square' = "''e4''" and old = someSquares] h2
  have c3: "afterRender (Some (effectDeps defaultCtx)) ?restyled
       (Some (mountedAt 320 240)) ''e4'' someSquares = someSquares" by blast
  from geometry_publication [where ctx = defaultCtx and stored = None
      and squareRef = "Some (mountedAt 320 240)" and square = "''e4''" and old = someSquares
      and other = "''a1''"] h3
  have c4: "afterRender None defaultCtx (Some (mountedAt 320 240)) ''e4'' someSquares ''a1'' =
     Some \<lparr> coord_x = 0, coord_y = 490 \<rparr>" by (simp add: someSquares_def)
  show ?thesis using h1 h2 h3 c1 c2 c3 c4 by blast
qed

subsection \<open>Touch moves\<close>

lemma dataSquareOf_Some_iff:
  "(dataSquareOf els = Some sq) =
     (\<exists>i<length els. getAttribute (els ! i) ''data-square'' = Some sq \<and> sq \<noteq> [] \<and>
        (\<forall>j<i. \<not> truthy_attr (getAttribute (els ! j) ''data-square'')))"
proof
  assume "dataSquareOf els = Some sq"
  then obtain el where f: "find (\<lambda>el. truthy_attr (getAttribute el ''data-square'')) els = Some el"
    and a: "getAttribute el ''data-square'' = Some sq"
    by (auto simp: dataSquareOf_def split: option.splits)
  from f obtain i where i: "i < length els" "truthy_attr (getAttribute (els ! i) ''data-square'')"
    "el = els ! i" "\<forall>j<i. \<not> truthy_attr (getAttribute (els ! j) ''data-square'')"
    by (auto simp: find_Some_iff)
  from i a have "sq \<noteq> []" by (simp add: truthy_attr_def)
  with i a show "\<exists>i<length els. getAttribute (els ! i) ''data-square'' = Some sq \<and> sq \<noteq> [] \<and>
        (\<forall>j<i. \<not> truthy_attr (getAttribute (els ! j) ''data-square''))" by auto
next
  assume "\<exists>i<length els. getAttribute (els ! i) ''data-square'' = Some sq \<and> sq \<noteq> [] \<and>
        (\<forall>j<i. \<not> truthy_attr (getAttribute (els ! j) ''data-square''))"
  then obtain i where i: "i < length els" "getAttribute (els ! i) ''data-square'' = Some sq"
    "sq \<noteq> []" "\<forall>j<i. \<not> truthy_attr (getAttribute (els ! j) ''data-square'')" by blast
  then have "find (\<lambda>el. truthy_attr (getAttribute el ''data-square'')) els = Some (els ! i)"
    by (auto simp: find_Some_iff truthy_attr_def)
  with i show "dataSquareOf els = Some sq" by (simp add: dataSquareOf_def)
qed


lemma dataSquareOf_nonempty: "dataSquareOf els = Some sq \<Longrightarrow> sq \<noteq> []"
  by (auto simp: dataSquareOf_Some_iff)

lemma onTouchMove_no_touch:
  "touches e = [] \<Longrightarrow> onTouchMove efp recorded e = Inl TypeError"
  by (simp add: onTouchMove_def)

lemma touchMoveOn_new:
  assumes "touches e = t # ts" and "dataSquareOf (efp (clientX t) (clientY t)) = Some sq"
    and "renderedValue inst \<noteq> Some sq"
  shows "touchMoveOn efp inst e = Inr (inst\<lparr>stateValue := Some sq\<rparr>, [OnDragOverSquare sq])"
proof -
  from assms(2) have "sq \<noteq> []" by (rule dataSquareOf_nonempty)
  with assms show ?thesis by (auto simp: touchMoveOn_def onTouchMove_def)
qed




lemma settled_unchanged:
  "stateValue inst = renderedValue inst \<Longrightarrow> renderedValue inst = Some sq \<Longrightarrow>
   inst\<lparr>stateValue := Some sq\<rparr> = inst"
  by simp

text \<open>
  Without a render between them, two events that resolve to a cell other than the rendered
  record both signal: the second handler still reads the record of the last render.
\<close>

lemma touchMove_before_rerender:
  assumes "touches e = t # ts" and "dataSquareOf (efp (clientX t) (clientY t)) = Some sq"
    and "touches e' = t' # ts'" and "dataSquareOf (efp (clientX t') (clientY t')) = Some sq"
    and "renderedValue inst \<noteq> Some sq"
  shows "touchMoveOn efp inst e = Inr (inst\<lparr>stateValue := Some sq\<rparr>, [OnDragOverSquare sq]) \<and>
         touchMoveOn efp (inst\<lparr>stateValue := Some sq\<rparr>) e' =
           Inr (inst\<lparr>stateValue := Some sq\<rparr>, [OnDragOverSquare sq])"
proof -
  have 1: "touchMoveOn efp inst e = Inr (inst\<lparr>stateValue := Some sq\<rparr>, [OnDragOverSquare sq])"
    using assms(1,2,5) by (rule touchMoveOn_new)
  have "renderedValue (inst\<lparr>stateValue := Some sq\<rparr>) \<noteq> Some sq" using assms(5) by simp
  with assms(3,4) have "touchMoveOn efp (inst\<lparr>stateValue := Some sq\<rparr>) e' =
      Inr (inst\<lparr>stateValue := Some sq\<rparr>\<lparr>stateValue := Some sq\<rparr>, [OnDragOverSquare sq])"
    by (rule touchMoveOn_new)
  with 1 show ?thesis by simp
qed












subsection \<open>Right-click gestures\<close>

lemma onMouseUp_with_origin:
  "button e = 2 \<Longrightarrow> currentRightClickDown ctx = Some origin \<Longrightarrow> origin \<noteq> [] \<Longrightarrow>
   onMouseUp ctx square e = [OnArrowDrawEnd origin square, OnRightClickUp square]"
  by (simp add: onMouseUp_def)

lemma onMouseUp_without_origin:
  "button e = 2 \<Longrightarrow> currentRightClickDown ctx = None \<Longrightarrow>
   onMouseUp ctx square e = [OnRightClickUp square]"
  by (simp add: onMouseUp_def)

lemma onMouseUp_rightClickUp:
  "button e = 2 \<Longrightarrow>
   occurrences (OnRightClickUp square) (onMouseUp ctx square e) = 1 \<and>
   last (onMouseUp ctx square e) = OnRightClickUp square"
  by (simp add: onMouseUp_def occurrences_def split: option.splits)

text \<open>
  Claim C6. Cell identities are non-empty strings. A mouse-down with the secondary button
  on cell A calls the right-click-down mutator with A, which records A as the
  right-click-down origin. A mouse-up with the secondary button on cell B while A is the
  recorded origin calls arrow-finalize(A, B) once and then right-click-up for B; this is
  so for the mouse-up that follows the mouse-down on A directly. Every mouse-up with the
  secondary button calls right-click-up for its cell once, as the last call, whether an
  origin is recorded or not.
\<close>

theorem rightClick_arrow:
  assumes "A \<noteq> []" and "button down = 2" and "button up = 2"
  shows "onMouseDown A down = [OnRightClickDown A] \<and>
         currentRightClickDown (onRightClickDown A ctx) = Some A \<and>
         onMouseUp (onRightClickDown A ctx) B up = [OnArrowDrawEnd A B, OnRightClickUp B] \<and>
         (currentRightClickDown ctx' = Some A \<longrightarrow>
            onMouseUp ctx' B up = [OnArrowDrawEnd A B, OnRightClickUp B] \<and>
            occurrences (OnArrowDrawEnd A B) (onMouseUp ctx' B up) = 1) \<and>
         (currentRightClickDown ctx' = None \<longrightarrow> onMouseUp ctx' B up = [OnRightClickUp B]) \<and>
         occurrences (OnRightClickUp B) (onMouseUp ctx'' B up) = 1 \<and>
         last (onMouseUp ctx'' B up) = OnRightClickUp B"
proof (intro conjI impI)
  show "onMouseDown A down = [OnRightClickDown A]"
    using assms by (simp add: onMouseDown_def)
  show r: "currentRightClickDown (onRightClickDown A ctx) = Some A"
    by (simp add: onRightClickDown_def)
  show "onMouseUp (onRightClickDown A ctx) B up = [OnArrowDrawEnd A B, OnRightClickUp B]"
    using assms r by (simp add: onMouseUp_with_origin)
  show "occurrences (OnRightClickUp B) (onMouseUp ctx'' B up) = 1"
    using assms onMouseUp_rightClickUp by blast
  show "last (onMouseUp ctx'' B up) = OnRightClickUp B"
    using assms onMouseUp_rightClickUp by blast
next
  assume "currentRightClickDown ctx' = Some A"
  then show "onMouseUp ctx' B up = [OnArrowDrawEnd A B, OnRightClickUp B]"
    using assms by (simp add: onMouseUp_with_origin)
  then show "occurrences (OnArrowDrawEnd A B) (onMouseUp ctx' B up) = 1"
    by (simp add: occurrences_def)
next
  assume "currentRightClickDown ctx' = None"
  then show "onMouseUp ctx' B up = [OnRightClickUp B]"
    using assms by (simp add: onMouseUp_without_origin)
qed

theorem rightClick_arrow_witness:
  "''e2'' \<noteq> [] \<and> button (rightButton cellNode) = 2 \<and> button (rightButton siblingNode) = 2 \<and>
   onMouseDown ''e2'' (rightButton cellNode) = [OnRightClickDown ''e2''] \<and>
   currentRightClickDown (onRightClickDown ''e2'' defaultCtx) = Some ''e2'' \<and>
   onMouseUp (onRightClickDown ''e2'' defaultCtx) ''e4'' (rightButton siblingNode) =
     [OnArrowDrawEnd ''e2'' ''e4'', OnRightClickUp ''e4''] \<and>
   currentRightClickDown (defaultCtx\<lparr>currentRightClickDown := Some ''e2''\<rparr>) = Some ''e2'' \<and>
   occurrences (OnArrowDrawEnd ''e2'' ''e4'')
     (onMouseUp (defaultCtx\<lparr>currentRightClickDown := Some ''e2''\<rparr>) ''e4''
        (rightButton siblingNode)) = 1 \<and>
   currentRightClickDown defaultCtx = None \<and>
   onMouseUp defaultCtx ''e4'' (rightButton siblingNode) = [OnRightClickUp ''e4'']"
proof -
  let ?held = "defaultCtx\<lparr>currentRightClickDown := Some ''e2''\<rparr>"
  have h1: "''e2'' \<noteq> []" by simp
  have h2: "button (rightButton cellNode) = 2" by (simp add: rightButton_def)
  have h3: "button (rightButton siblingNode) = 2" by (simp add: rightButton_def)
  have h4: "currentRightClickDown defaultCtx = None" by (simp add: defaultCtx_def)
  have h5: "currentRightClickDown ?held = Some ''e2''" by simp
  note t1 = rightClick_arrow [OF h1 h2 h3, where ctx = defaultCtx and B = "''e4''"
      and ctx' = defaultCtx]
  note t2 = rightClick_arrow [OF h1 h2 h3, where ctx = defaultCtx and B = "''e4''"
      and ctx' = ?held]
  from t2 h5 have c: "occurrences (OnArrowDrawEnd ''e2'' ''e4'')
     (onMouseUp ?held ''e4'' (rightButton siblingNode)) = 1" by blast
  from t1 h4 c show ?thesis using h1 h2 h3 h5 by blast
qed

subsection \<open>Hover signals\<close>

lemma contains_self: "contains n n"
  by (simp add: contains_def)

lemma contains_child: "c \<in> set (childNodes n) \<Longrightarrow> contains n c"
  by (cases n) (auto simp: contains_def)

lemma onMouseOut_eq:
  "onMouseOut square e =
     (if \<exists>target. relatedTarget e = Some target \<and>
           (target = currentTarget e \<or> target \<in> set (descendants (currentTarget e)))
      then [] else [OnMouseOutSquare square])"
  by (auto simp: onMouseOut_def contains_def split: option.splits)

lemma onMouseOver_hover:
  "occurrences (OnMouseOverSquare square) (onMouseOver ctx square e) =
     (if \<exists>target. relatedTarget e = Some target \<and>
           (target = currentTarget e \<or> target \<in> set (descendants (currentTarget e)))
      then 0 else 1)"
  by (auto simp: onMouseOver_def occurrences_def contains_def split: option.splits)

text \<open>
  Claim C7, as amended. For every mouse-out event on a cell, hover-leave is signalled for
  the cell, once, if and only if the event has no related target or its related target is
  neither the cell's own element nor a DOM descendant of it. So a mouse-out into a child
  element signals nothing and a mouse-out to a sibling cell signals hover-leave. In the
  same way a mouse-over event signals hover-enter for the cell, once, if and only if the
  related target is absent or is neither the cell's own element nor a descendant of it.
\<close>

theorem hover_signals:
  "(OnMouseOutSquare square \<in> set (onMouseOut square e)) =
     (\<not> (\<exists>target. relatedTarget e = Some target \<and>
           (target = currentTarget e \<or> target \<in> set (descendants (currentTarget e))))) \<and>
   occurrences (OnMouseOutSquare square) (onMouseOut square e) =
     (if \<exists>target. relatedTarget e = Some target \<and>
           (target = currentTarget e \<or> target \<in> set (descendants (currentTarget e)))
      then 0 else 1) \<and>
   (OnMouseOverSquare square \<in> set (onMouseOver ctx square e)) =
     (\<not> (\<exists>target. relatedTarget e = Some target \<and>
           (target = currentTarget e \<or> target \<in> set (descendants (currentTarget e))))) \<and>
   occurrences (OnMouseOverSquare square) (onMouseOver ctx square e) =
     (if \<exists>target. relatedTarget e = Some target \<and>
           (target = currentTarget e \<or> target \<in> set (descendants (currentTarget e)))
      then 0 else 1)"
proof (intro conjI)
  show "(OnMouseOutSquare square \<in> set (onMouseOut square e)) =
     (\<not> (\<exists>target. relatedTarget e = Some target \<and>
           (target = currentTarget e \<or> target \<in> set (descendants (currentTarget e)))))"
    by (simp add: onMouseOut_eq)
  show "occurrences (OnMouseOutSquare square) (onMouseOut square e) =
     (if \<exists>target. relatedTarget e = Some target \<and>
           (target = currentTarget e \<or> target \<in> set (descendants (currentTarget e)))
      then 0 else 1)"
    by (simp add: onMouseOut_eq occurrences_def)
  show "(OnMouseOverSquare square \<in> set (onMouseOver ctx square e)) =
     (\<not> (\<exists>target. relatedTarget e = Some target \<and>
           (target = currentTarget e \<or> target \<in> set (descendants (currentTarget e)))))"
    by (auto simp: onMouseOver_def contains_def split: option.splits if_splits)
  show "occurrences (OnMouseOverSquare square) (onMouseOver ctx square e) =
     (if \<exists>target. relatedTarget e = Some target \<and>
           (target = currentTarget e \<or> target \<in> set (descendants (currentTarget e)))
      then 0 else 1)"
    by (rule onMouseOver_hover)
qed

lemma descendants_cellNode: "descendants cellNode = [Node 3 [Node 2 []], Node 2 []]"
  by (simp add: cellNode_def pieceNode_def)

text \<open>
  A mouse-out and a mouse-over whose related target is the cell's own element: the element
  is not among its descendants, and neither handler signals.
\<close>

theorem hover_signals_counterexample:
  "cellNode \<notin> set (descendants cellNode) \<and>
   onMouseOut ''e4'' \<lparr> button = 0, buttons = 0, relatedTarget = Some cellNode,
                        currentTarget = cellNode \<rparr> = [] \<and>
   onMouseOver defaultCtx ''e4'' \<lparr> button = 0, buttons = 0, relatedTarget = Some cellNode,
                        currentTarget = cellNode \<rparr> = []"
  by (simp add: descendants_cellNode onMouseOut_def onMouseOver_def contains_def defaultCtx_def)
    (simp add: cellNode_def)

theorem hover_signals_witness:
  "pieceNode \<in> set (descendants cellNode) \<and>
   onMouseOut ''e4'' \<lparr> button = 0, buttons = 0, relatedTarget = Some pieceNode,
                        currentTarget = cellNode \<rparr> = [] \<and>
   siblingNode \<noteq> cellNode \<and> siblingNode \<notin> set (descendants cellNode) \<and>
   OnMouseOutSquare ''e4'' \<in> set (onMouseOut ''e4'' \<lparr> button = 0, buttons = 0,
        relatedTarget = Some siblingNode, currentTarget = cellNode \<rparr>) \<and>
   OnMouseOverSquare ''e4'' \<in> set (onMouseOver defaultCtx ''e4'' \<lparr> button = 0, buttons = 0,
        relatedTarget = None, currentTarget = cellNode \<rparr>)"
proof -
  have d1: "pieceNode \<in> set (descendants cellNode)"
    by (simp add: descendants_cellNode pieceNode_def)
  have d2: "siblingNode \<noteq> cellNode" by (simp add: siblingNode_def cellNode_def)
  have d3: "siblingNode \<notin> set (descendants cellNode)"
    by (simp add: descendants_cellNode siblingNode_def)
  note t1 = hover_signals [where square = "''e4''" and ctx = defaultCtx and
      e = "\<lparr> button = 0, buttons = 0, relatedTarget = Some pieceNode, currentTarget = cellNode \<rparr>"]
  note t2 = hover_signals [where square = "''e4''" and ctx = defaultCtx and
      e = "\<lparr> button = 0, buttons = 0, relatedTarget = Some siblingNode, currentTarget = cellNode \<rparr>"]
  note t3 = hover_signals [where square = "''e4''" and ctx = defaultCtx and
      e = "\<lparr> button = 0, buttons = 0, relatedTarget = None, currentTarget = cellNode \<rparr>"]
  from t1 d1 have c1: "OnMouseOutSquare ''e4'' \<notin> set (onMouseOut ''e4'' \<lparr> button = 0, buttons = 0,
       relatedTarget = Some pieceNode, currentTarget = cellNode \<rparr>)" by simp
  then have c1': "onMouseOut ''e4'' \<lparr> button = 0, buttons = 0, relatedTarget = Some pieceNode,
                        currentTarget = cellNode \<rparr> = []"
    by (simp add: onMouseOut_def split: if_splits)
  from t2 d2 d3 have c2: "OnMouseOutSquare ''e4'' \<in> set (onMouseOut ''e4'' \<lparr> button = 0, buttons = 0,
        relatedTarget = Some siblingNode, currentTarget = cellNode \<rparr>)" by simp
  from t3 have c3: "OnMouseOverSquare ''e4'' \<in> set (onMouseOver defaultCtx ''e4'' \<lparr> button = 0,
        buttons = 0, relatedTarget = None, currentTarget = cellNode \<rparr>)" by simp
  show ?thesis using d1 d2 d3 c1' c2 c3 by blast
qed

end
